theory Spec2Isabelle
  imports Main "HOL-Library.Sublist"
begin

section \<open>Python values, strings and exceptions\<close>

text \<open>
  The source types configuration documents, messages, keyword arguments and results as
  \<^verbatim>\<open>Dict[str, Any]\<close>. \<open>Any\<close> is modelled by the values a JSON document can hold
  (\<open>None\<close>, booleans, integers, strings, lists, string-keyed dictionaries; floats are
  left out), a dictionary by an association list in insertion order.
  A \<open>char\<close> stands for one code point below 256.
\<close>

datatype pyval =
    PNone
  | PBool bool
  | PInt int
  | PStr string
  | PList "pyval list"
  | PDict "(string \<times> pyval) list"

type_synonym pydict = "(string \<times> pyval) list"

text \<open>\<^verbatim>\<open>d.get(key, default)\<close>\<close>

definition dict_get :: "pydict \<Rightarrow> string \<Rightarrow> pyval \<Rightarrow> pyval" where
  "dict_get d k dflt = (case map_of d k of None \<Rightarrow> dflt | Some v \<Rightarrow> v)"

text \<open>\<^verbatim>\<open>type(v).__name__\<close>\<close>

fun py_type_name :: "pyval \<Rightarrow> string" where
  "py_type_name PNone = ''NoneType''"
| "py_type_name (PBool _) = ''bool''"
| "py_type_name (PInt _) = ''int''"
| "py_type_name (PStr _) = ''str''"
| "py_type_name (PList _) = ''list''"
| "py_type_name (PDict _) = ''dict''"

subsection \<open>Integers and strings as text\<close>

definition digit_char :: "nat \<Rightarrow> char" where
  "digit_char d = (''0123456789abcdef'') ! (d mod 16)"

fun str_nat :: "nat \<Rightarrow> string" where
  "str_nat n = (if n < 10 then [digit_char n] else str_nat (n div 10) @ [digit_char (n mod 10)])"

declare str_nat.simps [simp del]

text \<open>\<^verbatim>\<open>str(i)\<close> for an integer, as an f-string formats it.\<close>

definition str_int :: "int \<Rightarrow> string" where
  "str_int i = (if i < 0 then CHR ''-'' # str_nat (nat (- i)) else str_nat (nat i))"

definition hex2 :: "nat \<Rightarrow> string" where
  "hex2 n = [digit_char ((n div 16) mod 16), digit_char (n mod 16)]"

text \<open>\<^verbatim>\<open>sep.join(parts)\<close>\<close>

fun join :: "string \<Rightarrow> string list \<Rightarrow> string" where
  "join sep [] = []"
| "join sep [x] = x"
| "join sep (x # y # ys) = x @ sep @ join sep (y # ys)"

text \<open>
  \<^verbatim>\<open>repr(s)\<close> of a string: single quotes unless the text has a single quote and no
  double quote; the quote and the backslash are escaped, tab, newline and carriage return
  are written \<^verbatim>\<open>\t \n \r\<close>, and every other non-printable code point below 256 as
  \<^verbatim>\<open>\xNN\<close>.
\<close>

definition repr_char :: "char \<Rightarrow> char \<Rightarrow> string" where
  "repr_char q c =
     (let n = (of_char c :: nat) in
      if c = q \<or> n = 92 then [char_of (92::nat), c]
      else if n = 9 then [char_of (92::nat), CHR ''t'']
      else if n = 10 then [char_of (92::nat), CHR ''n'']
      else if n = 13 then [char_of (92::nat), CHR ''r'']
      else if n < 32 \<or> (127 \<le> n \<and> n \<le> 160) \<or> n = 173
        then [char_of (92::nat), CHR ''x''] @ hex2 n
      else [c])"

definition repr_str :: "string \<Rightarrow> string" where
  "repr_str s =
     (let q = (if char_of (39::nat) \<in> set s \<and> char_of (34::nat) \<notin> set s
               then char_of (34::nat) else char_of (39::nat))
      in [q] @ concat (map (repr_char q) s) @ [q])"

text \<open>\<^verbatim>\<open>repr(v)\<close> and \<^verbatim>\<open>str(v)\<close>\<close>

fun py_repr :: "pyval \<Rightarrow> string" where
  "py_repr PNone = ''None''"
| "py_repr (PBool b) = (if b then ''True'' else ''False'')"
| "py_repr (PInt i) = str_int i"
| "py_repr (PStr s) = repr_str s"
| "py_repr (PList xs) = ''['' @ join '', '' (map py_repr xs) @ '']''"
| "py_repr (PDict kvs) =
     ''{'' @ join '', '' (map (\<lambda>kv. repr_str (fst kv) @ '': '' @ py_repr (snd kv)) kvs) @ ''}''"

definition py_str :: "pyval \<Rightarrow> string" where
  "py_str v = (case v of PStr s \<Rightarrow> s | _ \<Rightarrow> py_repr v)"

subsection \<open>Exceptions\<close>

text \<open>
  A raised exception is a value. \<open>KeyError\<close> carries the key that was missing (its
  \<^verbatim>\<open>args[0]\<close>), \<open>AttributeError\<close> and \<open>TypeError\<close> their message; \<open>Raised\<close> is any
  other exception a plug-in raises: its class name, its \<^verbatim>\<open>str()\<close>, and whether the
  class derives from \<^verbatim>\<open>Exception\<close> (\<^verbatim>\<open>asyncio.CancelledError\<close>, \<^verbatim>\<open>KeyboardInterrupt\<close>
  and \<^verbatim>\<open>SystemExit\<close> derive from \<^verbatim>\<open>BaseException\<close> only).
\<close>

datatype exn =
    KeyError pyval
  | AttributeError string
  | TypeError string
  | Raised string string bool

fun exc_type_name :: "exn \<Rightarrow> string" where
  "exc_type_name (KeyError _) = ''KeyError''"
| "exc_type_name (AttributeError _) = ''AttributeError''"
| "exc_type_name (TypeError _) = ''TypeError''"
| "exc_type_name (Raised cls _ _) = cls"

text \<open>\<^verbatim>\<open>str(exc)\<close>: a \<open>KeyError\<close> prints the \<^verbatim>\<open>repr\<close> of its key.\<close>

fun exc_str :: "exn \<Rightarrow> string" where
  "exc_str (KeyError k) = py_repr k"
| "exc_str (AttributeError m) = m"
| "exc_str (TypeError m) = m"
| "exc_str (Raised _ m _) = m"

text \<open>\<^verbatim>\<open>isinstance(exc, Exception)\<close>, which \<^verbatim>\<open>except Exception\<close> tests.\<close>

fun is_Exception :: "exn \<Rightarrow> bool" where
  "is_Exception (KeyError _) = True"
| "is_Exception (AttributeError _) = True"
| "is_Exception (TypeError _) = True"
| "is_Exception (Raised _ _ b) = b"

definition squote :: string where
  "squote = [CHR 0x27]"

text \<open>
  \<^verbatim>\<open>d[key]\<close> on a dictionary with string keys, for a key of any type: a missing
  hashable key raises \<open>KeyError(key)\<close>, a list or a dictionary is unhashable.
\<close>

definition py_getitem :: "(string \<rightharpoonup> 'a) \<Rightarrow> pyval \<Rightarrow> exn + 'a" where
  "py_getitem d key =
     (case key of
        PStr s \<Rightarrow> (case d s of None \<Rightarrow> Inl (KeyError key) | Some v \<Rightarrow> Inr v)
      | PList _ \<Rightarrow> Inl (TypeError (''unhashable type: '' @ squote @ ''list'' @ squote))
      | PDict _ \<Rightarrow> Inl (TypeError (''unhashable type: '' @ squote @ ''dict'' @ squote))
      | _ \<Rightarrow> Inl (KeyError key))"

text \<open>\<^verbatim>\<open>s.lower()\<close>, on code points below 256, and \<^verbatim>\<open>v.lower()\<close> for any value.\<close>

definition py_lower_char :: "char \<Rightarrow> char" where
  "py_lower_char c =
     (let n = (of_char c :: nat) in
      if (65 \<le> n \<and> n \<le> 90) \<or> (192 \<le> n \<and> n \<le> 222 \<and> n \<noteq> 215)
      then char_of (n + 32) else c)"

definition str_lower :: "string \<Rightarrow> string" where
  "str_lower s = map py_lower_char s"

definition py_lower :: "pyval \<Rightarrow> exn + string" where
  "py_lower v =
     (case v of
        PStr s \<Rightarrow> Inr (str_lower s)
      | _ \<Rightarrow> Inl (AttributeError (squote @ py_type_name v @ squote
                 @ '' object has no attribute '' @ squote @ ''lower'' @ squote)))"

text \<open>\<^verbatim>\<open>needle in hay\<close> on strings\<close>

fun str_contains :: "string \<Rightarrow> string \<Rightarrow> bool" where
  "str_contains needle [] = (needle = [])"
| "str_contains needle (c # cs) = (prefix needle (c # cs) \<or> str_contains needle cs)"

text \<open>\<^verbatim>\<open>len(v)\<close>\<close>

definition py_len :: "pyval \<Rightarrow> exn + int" where
  "py_len v =
     (case v of
        PStr s \<Rightarrow> Inr (int (length s))
      | PList xs \<Rightarrow> Inr (int (length xs))
      | PDict kvs \<Rightarrow> Inr (int (length kvs))
      | _ \<Rightarrow> Inl (TypeError (''object of type '' @ squote @ py_type_name v @ squote
                 @ '' has no len()'')))"

section \<open>Capability registry (core/registry.py)\<close>

text \<open>
  A connector is its \<open>fetch\<close>: the exception it raises or the messages it returns. An
  action is its \<open>run\<close>: from the keyword arguments of the earlier calls on the same
  instance and those of this call, to an exception or a result; an action that keeps
  state between calls is a function of that history.
\<close>

datatype connector = Connector (fetch: "exn + pydict list")

datatype action = Action (action_run: "pydict list \<Rightarrow> pydict \<Rightarrow> exn + pyval")

datatype RegisteredConnector =
  RegisteredConnector (connector_name: string) (connector_factory: "unit \<Rightarrow> exn + connector")

datatype RegisteredAction =
  RegisteredAction (action_name: string) (action_factory: "unit \<Rightarrow> exn + action")

record Registry =
  connectors :: "string \<rightharpoonup> RegisteredConnector"
  actions :: "string \<rightharpoonup> RegisteredAction"

definition Registry_init :: Registry where
  "Registry_init = \<lparr>connectors = Map.empty, actions = Map.empty\<rparr>"

definition register_connector ::
  "Registry \<Rightarrow> string \<Rightarrow> (unit \<Rightarrow> exn + connector) \<Rightarrow> Registry" where
  "register_connector reg nm factory =
     reg\<lparr>connectors := (connectors reg)(nm \<mapsto> RegisteredConnector nm factory)\<rparr>"

definition register_action ::
  "Registry \<Rightarrow> string \<Rightarrow> (unit \<Rightarrow> exn + action) \<Rightarrow> Registry" where
  "register_action reg nm factory =
     reg\<lparr>actions := (actions reg)(nm \<mapsto> RegisteredAction nm factory)\<rparr>"

text \<open>\<^verbatim>\<open>self._connectors[name].factory()\<close> and \<^verbatim>\<open>self._actions[name].factory()\<close>\<close>

definition Registry_connector :: "Registry \<Rightarrow> pyval \<Rightarrow> exn + connector" where
  "Registry_connector reg nm =
     (case py_getitem (connectors reg) nm of
        Inl e \<Rightarrow> Inl e
      | Inr rc \<Rightarrow> connector_factory rc ())"

definition Registry_action :: "Registry \<Rightarrow> pyval \<Rightarrow> exn + action" where
  "Registry_action reg nm =
     (case py_getitem (actions reg) nm of
        Inl e \<Rightarrow> Inl e
      | Inr ra \<Rightarrow> action_factory ra ())"

section \<open>Plug-ins (connectors/mock_email.py, actions/, core/bootstrap.py)\<close>

definition MockEmailConnector :: "pydict list option \<Rightarrow> connector" where
  "MockEmailConnector messages =
     Connector (Inr (case messages of None \<Rightarrow> [] | Some ms \<Rightarrow> ms))"

definition EmailAction :: action where
  "EmailAction = Action (\<lambda>_ kwargs.
     let to = dict_get kwargs ''to'' PNone;
         subject = dict_get kwargs ''subject'' (PStr []);
         body = dict_get kwargs ''body'' (PStr [])
     in case py_len body of
          Inl e \<Rightarrow> Inl e
        | Inr n \<Rightarrow> Inr (PDict [(''sent'', PBool True), (''to'', to),
                               (''subject'', subject), (''body_len'', PInt n)]))"

definition LogAction :: action where
  "LogAction = Action (\<lambda>_ kwargs. Inr (PDict [(''logged'', PDict kwargs)]))"

definition register_plugins :: "Registry \<Rightarrow> Registry" where
  "register_plugins reg =
     register_action
       (register_action
          (register_connector reg ''mock_email'' (\<lambda>_. Inr (MockEmailConnector None)))
          ''email'' (\<lambda>_. Inr EmailAction))
       ''log'' (\<lambda>_. Inr LogAction)"

section \<open>Invoice agent (agents/invoice_email_agent.py)\<close>

datatype InvoiceEmailAgent = InvoiceEmailAgent (config: pydict)

definition InvoiceEmailAgent_kind :: string where
  "InvoiceEmailAgent_kind = ''invoice_email''"

text \<open>
  The list comprehension \<^verbatim>\<open>[m for m in messages if "invoice" in m.get("subject", "").lower()]\<close>:
  it raises at the first message whose subject has no \<^verbatim>\<open>lower\<close>.
\<close>

fun filter_invoices :: "pydict list \<Rightarrow> exn + pydict list" where
  "filter_invoices [] = Inr []"
| "filter_invoices (m # ms) =
     (case py_lower (dict_get m ''subject'' (PStr [])) of
        Inl e \<Rightarrow> Inl e
      | Inr s \<Rightarrow>
          (case filter_invoices ms of
             Inl e \<Rightarrow> Inl e
           | Inr kept \<Rightarrow> Inr (if str_contains ''invoice'' s then m # kept else kept)))"

text \<open>
  The loop \<^verbatim>\<open>for inv in invoices\<close>: \<open>calls\<close> are the keyword arguments of the calls made
  so far on the action, \<open>results\<close> the list \<^verbatim>\<open>results\<close>. A call that raises ends the loop.
\<close>

fun send_all ::
  "action \<Rightarrow> pydict \<Rightarrow> pydict list \<Rightarrow> pydict list \<Rightarrow> pyval list
    \<Rightarrow> (exn + pyval list) \<times> pydict list" where
  "send_all act cfg [] calls results = (Inr results, calls)"
| "send_all act cfg (inv' # invs) calls results =
     (let kwargs =
            [(''to'', dict_get cfg ''accounting_email'' PNone),
             (''subject'', PStr (''FWD: '' @ py_str (dict_get inv' ''subject'' (PStr [])))),
             (''body'', dict_get inv' ''body'' (PStr []))]
      in case action_run act calls kwargs of
           Inl e \<Rightarrow> (Inl e, calls @ [kwargs])
         | Inr res \<Rightarrow> send_all act cfg invs (calls @ [kwargs]) (results @ [res]))"

text \<open>
  \<open>InvoiceEmailAgent.run\<close>, reading the module's registry: the outcome (an exception or
  the result document) and the keyword arguments of every action call made, in order.
\<close>

definition InvoiceEmailAgent_run ::
  "Registry \<Rightarrow> InvoiceEmailAgent \<Rightarrow> (exn + pyval) \<times> pydict list" where
  "InvoiceEmailAgent_run registry self =
     (let connector_name = dict_get (config self) ''connector'' (PStr ''mock_email'') in
      case Registry_connector registry connector_name of
        Inl e \<Rightarrow> (Inl e, [])
      | Inr email_connector \<Rightarrow>
      (case fetch email_connector of
        Inl e \<Rightarrow> (Inl e, [])
      | Inr messages \<Rightarrow>
      (case filter_invoices messages of
        Inl e \<Rightarrow> (Inl e, [])
      | Inr invoices \<Rightarrow>
      (let action_name = dict_get (config self) ''action'' (PStr ''email'') in
       case Registry_action registry action_name of
        Inl e \<Rightarrow> (Inl e, [])
      | Inr act \<Rightarrow>
      (case send_all act (config self) invoices [] [] of
        (Inl e, calls) \<Rightarrow> (Inl e, calls)
      | (Inr results, calls) \<Rightarrow>
          (Inr (PDict [(''inputs'', PInt (int (length messages))),
                       (''invoices'', PInt (int (length invoices))),
                       (''sent'', PInt (int (length results)))]),
           calls))))))"

section \<open>Dispatcher (core/runtime.py)\<close>

text \<open>
  An agent class takes the configuration and gives the object whose \<open>run\<close> is then
  invoked; \<open>run\<close> reads the module's registry.
\<close>

type_synonym agent_cls = "pydict \<Rightarrow> Registry \<Rightarrow> (exn + pyval) \<times> pydict list"

definition AGENT_KIND_TO_CLASS :: "string \<rightharpoonup> agent_cls" where
  "AGENT_KIND_TO_CLASS =
     [InvoiceEmailAgent_kind \<mapsto>
        (\<lambda>cfg registry. InvoiceEmailAgent_run registry (InvoiceEmailAgent cfg))]"

definition run_agent :: "Registry \<Rightarrow> string \<Rightarrow> pydict \<Rightarrow> (exn + pyval) \<times> pydict list" where
  "run_agent registry knd cfg =
     (case AGENT_KIND_TO_CLASS knd of
        None \<Rightarrow> (Inl (KeyError (PStr knd)), [])
      | Some agent_cls \<Rightarrow> agent_cls cfg registry)"

section \<open>Stored records (db/models.py)\<close>

type_synonym datetime = int

record Agent =
  Agent_id :: int
  Agent_name :: string
  Agent_kind :: string
  Agent_config :: pydict
  Agent_schedule_seconds :: int
  Agent_enabled :: bool
  Agent_created_at :: datetime
  Agent_updated_at :: datetime

record Run =
  Run_id :: int
  agent_id :: int
  status :: string
  started_at :: "datetime option"
  finished_at :: "datetime option"
  logs :: string

section \<open>Executor (core/executor.py)\<close>

text \<open>
  Modelled from the spec: the database session and the clock, which the executor uses
  and which are not under src/ (the session factory of the \<open>db\<close> package, SQLAlchemy
  and \<^verbatim>\<open>datetime.now\<close>). The store holds the two tables; \<open>db_log\<close> records every flush
  and commit with the run row it writes; \<open>clock\<close> gives the successive readings of
  \<^verbatim>\<open>datetime.now(timezone.utc)\<close> and \<open>clock_reads\<close> counts the readings taken;
  \<open>action_calls\<close> collects the keyword arguments of every action call made.
  Reads and writes of the store do not fail.
\<close>

datatype db_event = Flush Run | Commit Run

record world =
  agents_table :: "Agent list"
  runs_table :: "Run list"
  db_log :: "db_event list"
  clock :: "nat \<Rightarrow> datetime"
  clock_reads :: nat
  action_calls :: "pydict list"

definition datetime_now :: "world \<Rightarrow> datetime \<times> world" where
  "datetime_now w = (clock w (clock_reads w), w\<lparr>clock_reads := Suc (clock_reads w)\<rparr>)"

text \<open>\<^verbatim>\<open>session.get(Agent, agent_id)\<close> and \<^verbatim>\<open>session.get(Run, run_id)\<close>: the row or \<open>None\<close>.\<close>

definition session_get_Agent :: "world \<Rightarrow> int \<Rightarrow> Agent option" where
  "session_get_Agent w aid = find (\<lambda>a. Agent_id a = aid) (agents_table w)"

definition session_get_Run :: "world \<Rightarrow> int \<Rightarrow> Run option" where
  "session_get_Run w rid = find (\<lambda>r. Run_id r = rid) (runs_table w)"

text \<open>The integer primary key a new row receives: one more than the largest in the table.\<close>

definition next_run_id :: "Run list \<Rightarrow> int" where
  "next_run_id rs = fold max (map Run_id rs) 0 + 1"

text \<open>Writing a row: an update of the row with its key, or an insert at the end.\<close>

definition write_run :: "Run \<Rightarrow> Run list \<Rightarrow> Run list" where
  "write_run r rs =
     (if Run_id r \<in> Run_id ` set rs
      then map (\<lambda>x. if Run_id x = Run_id r then r else x) rs
      else rs @ [r])"

definition session_flush :: "world \<Rightarrow> Run \<Rightarrow> world" where
  "session_flush w r = w\<lparr>runs_table := write_run r (runs_table w), db_log := db_log w @ [Flush r]\<rparr>"

definition session_commit :: "world \<Rightarrow> Run \<Rightarrow> world" where
  "session_commit w r = w\<lparr>runs_table := write_run r (runs_table w), db_log := db_log w @ [Commit r]\<rparr>"

text \<open>
  \<^verbatim>\<open>json.dumps(v)\<close> with its default settings: \<^verbatim>\<open>", "\<close> and \<^verbatim>\<open>": "\<close> as separators and
  every code point outside the printable ASCII range escaped.
\<close>

definition json_char :: "char \<Rightarrow> string" where
  "json_char c =
     (let n = (of_char c :: nat) in
      if n = 34 \<or> n = 92 then [CHR 0x5C, c]
      else if n = 8 then [CHR 0x5C, CHR ''b'']
      else if n = 9 then [CHR 0x5C, CHR ''t'']
      else if n = 10 then [CHR 0x5C, CHR ''n'']
      else if n = 12 then [CHR 0x5C, CHR ''f'']
      else if n = 13 then [CHR 0x5C, CHR ''r'']
      else if n < 32 \<or> 126 < n then [CHR 0x5C, CHR ''u'', CHR ''0'', CHR ''0''] @ hex2 n
      else [c])"

definition json_str :: "string \<Rightarrow> string" where
  "json_str s = [CHR 0x22] @ concat (map json_char s) @ [CHR 0x22]"

fun json_dumps :: "pyval \<Rightarrow> string" where
  "json_dumps PNone = ''null''"
| "json_dumps (PBool b) = (if b then ''true'' else ''false'')"
| "json_dumps (PInt i) = str_int i"
| "json_dumps (PStr s) = json_str s"
| "json_dumps (PList xs) = ''['' @ join '', '' (map json_dumps xs) @ '']''"
| "json_dumps (PDict kvs) =
     ''{'' @ join '', '' (map (\<lambda>kv. json_str (fst kv) @ '': '' @ json_dumps (snd kv)) kvs) @ ''}''"

text \<open>
  \<open>execute_agent_by_id\<close>: the value returned or the exception that leaves the function,
  and the world after it. The \<^verbatim>\<open>except Exception\<close> clause runs for an exception that
  derives from \<^verbatim>\<open>Exception\<close>; the \<^verbatim>\<open>finally\<close> clause runs on every path.
\<close>

definition execute_agent_by_id :: "Registry \<Rightarrow> world \<Rightarrow> int \<Rightarrow> (exn + pyval) \<times> world" where
  "execute_agent_by_id registry w aid =
     (case session_get_Agent w aid of
        None \<Rightarrow> (Inr (PDict [(''error'', PStr (''Agent '' @ str_int aid @ '' not found''))]), w)
      | Some agent \<Rightarrow>
          (let (t0, w1) = datetime_now w;
               run0 = \<lparr>Run_id = next_run_id (runs_table w1), agent_id = Agent_id agent,
                       status = ''running'', started_at = Some t0, finished_at = None,
                       logs = []\<rparr>;
               w2 = session_flush w1 run0;
               (outcome, calls) = run_agent registry (Agent_kind agent) (Agent_config agent);
               w3 = w2\<lparr>action_calls := action_calls w2 @ calls\<rparr>;
               run1 = (case outcome of
                         Inr result \<Rightarrow> run0\<lparr>status := ''success'', logs := json_dumps result\<rparr>
                       | Inl exc \<Rightarrow>
                           if is_Exception exc
                           then run0\<lparr>status := ''error'',
                                     logs := exc_type_name exc @ '': '' @ exc_str exc\<rparr>
                           else run0);
               (t1, w4) = datetime_now w3;
               run2 = run1\<lparr>finished_at := Some t1\<rparr>
           in (outcome, session_commit w4 run2)))"

definition execute_run :: "Registry \<Rightarrow> world \<Rightarrow> int \<Rightarrow> (exn + pyval) \<times> world" where
  "execute_run registry w rid =
     (case session_get_Run w rid of
        None \<Rightarrow> (Inr (PDict [(''error'', PStr (''Run '' @ str_int rid @ '' not found''))]), w)
      | Some run \<Rightarrow>
     (case session_get_Agent w (agent_id run) of
        None \<Rightarrow>
          (Inr (PDict [(''error'', PStr (''Agent '' @ str_int (agent_id run) @ '' not found''))]), w)
      | Some agent \<Rightarrow>
          (let (t0, w1) = datetime_now w;
               run0 = run\<lparr>status := ''running'', started_at := Some t0\<rparr>;
               w2 = session_flush w1 run0;
               (outcome, calls) = run_agent registry (Agent_kind agent) (Agent_config agent);
               w3 = w2\<lparr>action_calls := action_calls w2 @ calls\<rparr>;
               run1 = (case outcome of
                         Inr result \<Rightarrow> run0\<lparr>status := ''success'', logs := json_dumps result\<rparr>
                       | Inl exc \<Rightarrow>
                           if is_Exception exc
                           then run0\<lparr>status := ''error'',
                                     logs := exc_type_name exc @ '': '' @ exc_str exc\<rparr>
                           else run0);
               (t1, w4) = datetime_now w3;
               run2 = run1\<lparr>finished_at := Some t1\<rparr>
           in (outcome, session_commit w4 run2))))"

section \<open>Scheduler (scheduler/loop.py)\<close>

text \<open>
  Modelled from the spec: the timer store and the interval trigger of the scheduler
  library, which the source calls and which are not under src/ (\<^verbatim>\<open>get_job\<close>,
  \<^verbatim>\<open>remove_job\<close>, \<^verbatim>\<open>add_job\<close> and \<^verbatim>\<open>IntervalTrigger\<close> of APScheduler). A job is a timer:
  its id, the agent id its callable executes, and the length in seconds of the interval
  of its trigger. \<open>get_job\<close> gives the job with the id or \<open>None\<close>; \<open>remove_job\<close> tears
  down the job with the id and raises when there is none; \<open>add_job\<close> installs a job,
  replacing the one with the same id when \<^verbatim>\<open>replace_existing\<close> is set and raising
  otherwise. An operation gives the exception it raises, if any, and the jobs it leaves.
\<close>

record job =
  job_id :: string
  job_agent_id :: int
  trigger_seconds :: int

definition get_job :: "job list \<Rightarrow> string \<Rightarrow> job option" where
  "get_job jobs jid = find (\<lambda>j. job_id j = jid) jobs"

fun remove_first :: "string \<Rightarrow> job list \<Rightarrow> job list" where
  "remove_first jid [] = []"
| "remove_first jid (j # js) = (if job_id j = jid then js else j # remove_first jid js)"

definition remove_job :: "job list \<Rightarrow> string \<Rightarrow> exn option \<times> job list" where
  "remove_job jobs jid =
     (case get_job jobs jid of
        None \<Rightarrow>
          (Some (Raised ''JobLookupError'' (''No job by the id of '' @ jid @ '' was found'') True),
           jobs)
      | Some _ \<Rightarrow> (None, remove_first jid jobs))"

definition add_job :: "job list \<Rightarrow> job \<Rightarrow> bool \<Rightarrow> exn option \<times> job list" where
  "add_job jobs j replace_existing =
     (case get_job jobs (job_id j) of
        None \<Rightarrow> (None, jobs @ [j])
      | Some _ \<Rightarrow>
          if replace_existing
          then (None, map (\<lambda>x. if job_id x = job_id j then j else x) jobs)
          else (Some (Raised ''ConflictingIdError''
                  (''Job identifier ('' @ job_id j @ '') conflicts with an existing job'') True),
                jobs))"

text \<open>
  \<^verbatim>\<open>IntervalTrigger(seconds=seconds)\<close>: the exception it raises or the length in seconds
  of the interval of the trigger it builds. It first builds \<^verbatim>\<open>timedelta(seconds=seconds)\<close>,
  which raises \<open>OverflowError\<close> beyond 999999999 days; an interval of length 0 becomes
  one second; its start date is \<^verbatim>\<open>datetime.now(tz) + interval\<close>, which raises
  \<open>OverflowError\<close> outside the years 1 to 9999. \<open>now\<close> is the reading of the clock in
  whole seconds since the first instant of year 1.
\<close>

definition IntervalTrigger :: "int \<Rightarrow> int \<Rightarrow> exn + int" where
  "IntervalTrigger now seconds =
     (let days = seconds div 86400 in
      if days < - 2147483648 \<or> 2147483647 < days
      then Inl (Raised ''OverflowError'' ''Python int too large to convert to C int'' True)
      else if days < - 999999999 \<or> 999999999 < days
      then Inl (Raised ''OverflowError''
             (''days='' @ str_int days @ ''; must have magnitude <= 999999999'') True)
      else
        (let interval_length = (if seconds = 0 then 1 else seconds) in
         if now + interval_length < 0 \<or> 315537897599 < now + interval_length
         then Inl (Raised ''OverflowError'' ''date value out of range'' True)
         else Inr interval_length))"

text \<open>
  \<open>AgentScheduler.add_or_update_job\<close>, on the jobs of \<^verbatim>\<open>self.scheduler\<close>: the job with the
  id is removed first, then the arguments of \<^verbatim>\<open>add_job\<close> are evaluated, the trigger among
  them, then \<^verbatim>\<open>add_job\<close> is called.
\<close>

definition add_or_update_job :: "job list \<Rightarrow> int \<Rightarrow> int \<Rightarrow> int \<Rightarrow> exn option \<times> job list" where
  "add_or_update_job jobs now aid seconds =
     (let jid = ''agent-'' @ str_int aid;
          (raised, jobs1) = (case get_job jobs jid of
                               Some _ \<Rightarrow> remove_job jobs jid
                             | None \<Rightarrow> (None, jobs))
      in case raised of
           Some e \<Rightarrow> (Some e, jobs1)
         | None \<Rightarrow>
             (case IntervalTrigger now seconds of
                Inl e \<Rightarrow> (Some e, jobs1)
              | Inr interval_length \<Rightarrow>
                  add_job jobs1
                    \<lparr>job_id = jid, job_agent_id = aid, trigger_seconds = interval_length\<rparr>
                    True))"

section \<open>Notions used by the statements\<close>

text \<open>The subject of a message as the source reads it, \<^verbatim>\<open>m.get("subject", "")\<close>.\<close>

definition subject :: "pydict \<Rightarrow> pyval" where
  "subject m = dict_get m ''subject'' (PStr [])"

text \<open>
  The subject is a string that contains ``invoice'' up to the case of its letters: some
  substring of it lower-cases to \<open>invoice\<close>.
\<close>

definition has_invoice_subject :: "pydict \<Rightarrow> bool" where
  "has_invoice_subject m =
     (\<exists>s p u q. subject m = PStr s \<and> s = p @ u @ q \<and> str_lower u = ''invoice'')"

text \<open>
  The test of the comprehension on a message whose subject is a string, and the text of
  such a subject.
\<close>

definition subject_matches :: "pydict \<Rightarrow> bool" where
  "subject_matches m =
     (case subject m of PStr s \<Rightarrow> str_contains ''invoice'' (str_lower s) | _ \<Rightarrow> False)"

definition subject_text :: "pydict \<Rightarrow> string" where
  "subject_text m = (case subject m of PStr s \<Rightarrow> s | _ \<Rightarrow> [])"

text \<open>The keyword arguments with which a message is forwarded.\<close>

definition forward_kwargs :: "pydict \<Rightarrow> pydict \<Rightarrow> pydict" where
  "forward_kwargs cfg m =
     [(''to'', dict_get cfg ''accounting_email'' PNone),
      (''subject'', PStr (''FWD: '' @ subject_text m)),
      (''body'', dict_get m ''body'' (PStr []))]"

text \<open>The result document with the three counts.\<close>

definition counts :: "nat \<Rightarrow> nat \<Rightarrow> nat \<Rightarrow> pyval" where
  "counts n k s =
     PDict [(''inputs'', PInt (int n)), (''invoices'', PInt (int k)), (''sent'', PInt (int s))]"

text \<open>A run row in a terminal status has both times, the finish not before the start.\<close>

definition terminal :: "Run \<Rightarrow> bool" where
  "terminal r = (status r = ''success'' \<or> status r = ''error'')"

definition times_ok :: "Run \<Rightarrow> bool" where
  "times_ok r =
     (case (started_at r, finished_at r) of
        (Some s, Some f) \<Rightarrow> s \<le> f
      | _ \<Rightarrow> False)"

text \<open>The commits among the events of a log.\<close>

fun commits :: "db_event list \<Rightarrow> Run list" where
  "commits [] = []"
| "commits (Commit r # es) = r # commits es"
| "commits (Flush r # es) = commits es"

section \<open>Example data\<close>

text \<open>
  Three fetched messages of which one is an invoice, a configuration, and the registry of
  \<open>register_plugins\<close> with the connector \<open>mock_email\<close> registered again to return them.
\<close>

definition demo_messages :: "pydict list" where
  "demo_messages =
     [[(''subject'', PStr ''Hello''), (''body'', PStr ''How are you?'')],
      [(''subject'', PStr ''Invoice #4''), (''body'', PStr ''Please pay'')],
      [(''subject'', PStr ''Lunch on Friday'')]]"

definition demo_config :: pydict where
  "demo_config = [(''accounting_email'', PStr ''accounting@example.com'')]"

definition demo_registry :: Registry where
  "demo_registry =
     register_connector (register_plugins Registry_init) ''mock_email''
       (\<lambda>_. Inr (MockEmailConnector (Some demo_messages)))"

text \<open>
  Three invoices and an action whose second call raises \<open>RuntimeError\<close>; a connector
  whose \<open>fetch\<close> is cancelled (\<^verbatim>\<open>asyncio.CancelledError\<close> derives from
  \<^verbatim>\<open>BaseException\<close>, not from \<^verbatim>\<open>Exception\<close>).
\<close>

definition three_invoices :: "pydict list" where
  "three_invoices =
     [[(''subject'', PStr ''Invoice #1'')],
      [(''subject'', PStr ''Your INVOICE #2'')],
      [(''subject'', PStr ''invoice #3'')]]"

definition flaky_action :: action where
  "flaky_action = Action (\<lambda>calls kwargs.
     if length calls = 1 then Inl (Raised ''RuntimeError'' ''smtp down'' True)
     else Inr (PBool True))"

definition flaky_registry :: Registry where
  "flaky_registry =
     register_action
       (register_connector (register_plugins Registry_init) ''mock_email''
          (\<lambda>_. Inr (MockEmailConnector (Some three_invoices))))
       ''email'' (\<lambda>_. Inr flaky_action)"

definition cancelled_registry :: Registry where
  "cancelled_registry =
     register_connector (register_plugins Registry_init) ''mock_email''
       (\<lambda>_. Inr (Connector (Inl (Raised ''CancelledError'' [] False))))"

text \<open>
  A store with one agent, a queued run of it (as \<open>POST /runs\<close> creates one) and a queued
  run that refers to an agent that is not stored; the clock advances by five at each
  reading.
\<close>

definition demo_agent :: Agent where
  "demo_agent =
     \<lparr>Agent_id = 1, Agent_name = ''invoices'', Agent_kind = ''invoice_email'',
      Agent_config = demo_config, Agent_schedule_seconds = 300, Agent_enabled = True,
      Agent_created_at = 0, Agent_updated_at = 0\<rparr>"

definition queued_run :: Run where
  "queued_run =
     \<lparr>Run_id = 7, agent_id = 1, status = ''queued'', started_at = None,
      finished_at = None, logs = []\<rparr>"

definition orphan_run :: Run where
  "orphan_run =
     \<lparr>Run_id = 9, agent_id = 99, status = ''queued'', started_at = None,
      finished_at = None, logs = []\<rparr>"

definition demo_world :: world where
  "demo_world =
     \<lparr>agents_table = [demo_agent], runs_table = [queued_run, orphan_run], db_log = [],
      clock = (\<lambda>n. 1000 + 5 * int n), clock_reads = 0, action_calls = []\<rparr>"

text \<open>
  The same store with a clock that goes back by five at each reading; messages of which
  one has no string as its subject; a reading of the clock in November 2026, in seconds
  since the first instant of year 1.
\<close>

definition backward_world :: world where
  "backward_world = demo_world\<lparr>clock := (\<lambda>n. 1000 - 5 * int n)\<rparr>"



definition demo_now :: int where
  "demo_now = 63929260800"

section \<open>Properties of the invoice agent\<close>

subsection \<open>Strings, the filter and the loop\<close>

lemma str_contains_sublist: "str_contains n h = sublist n h"
  by (induction h) (simp_all add: sublist_Cons_right)

lemma str_lower_append: "str_lower (a @ b) = str_lower a @ str_lower b"
  by (simp add: str_lower_def)

lemma contains_lower_iff:
  "str_contains n (str_lower s) \<longleftrightarrow> (\<exists>p u q. s = p @ u @ q \<and> str_lower u = n)"
proof
  assume "str_contains n (str_lower s)"
  then obtain p' q' where "map py_lower_char s = p' @ n @ q'"
    by (auto simp: str_contains_sublist sublist_def str_lower_def)
  then obtain p r where s: "s = p @ r" and "map py_lower_char r = n @ q'"
    by (metis map_eq_append_conv)
  then obtain u q where "r = u @ q" "map py_lower_char u = n"
    by (metis map_eq_append_conv)
  with s show "\<exists>p u q. s = p @ u @ q \<and> str_lower u = n"
    by (auto simp: str_lower_def)
next
  assume "\<exists>p u q. s = p @ u @ q \<and> str_lower u = n"
  then show "str_contains n (str_lower s)"
    by (fastforce simp: str_contains_sublist sublist_def str_lower_append)
qed

lemma has_invoice_subject_code: "has_invoice_subject m = subject_matches m"
  by (auto simp: has_invoice_subject_def subject_matches_def contains_lower_iff split: pyval.splits)

lemma filter_invoices_Inr:
  "filter_invoices ms = Inr kept \<Longrightarrow>
     kept = filter has_invoice_subject ms \<and> (\<forall>m\<in>set ms. \<exists>s. subject m = PStr s)"
proof (induction ms arbitrary: kept)
  case Nil
  then show ?case by simp
next
  case (Cons m ms)
  then show ?case
    by (auto simp: has_invoice_subject_code subject_matches_def subject_def py_lower_def
             split: sum.splits pyval.splits if_splits)
qed

lemma filter_invoices_total:
  "\<forall>m\<in>set ms. \<exists>s. subject m = PStr s \<Longrightarrow> filter_invoices ms = Inr (filter has_invoice_subject ms)"
  by (induction ms) (auto simp: has_invoice_subject_code subject_matches_def subject_def py_lower_def)

lemma kwargs_of_str_subject:
  "subject m = PStr s \<Longrightarrow>
     [(''to'', dict_get cfg ''accounting_email'' PNone),
      (''subject'', PStr (''FWD: '' @ py_str (dict_get m ''subject'' (PStr [])))),
      (''body'', dict_get m ''body'' (PStr []))] = forward_kwargs cfg m"
  by (simp add: forward_kwargs_def subject_text_def subject_def py_str_def)

lemma send_all_Cons:
  "subject m = PStr s \<Longrightarrow>
     send_all act cfg (m # invs) calls results =
       (case action_run act calls (forward_kwargs cfg m) of
          Inl e \<Rightarrow> (Inl e, calls @ [forward_kwargs cfg m])
        | Inr res \<Rightarrow> send_all act cfg invs (calls @ [forward_kwargs cfg m]) (results @ [res]))"
  by (simp only: send_all.simps Let_def kwargs_of_str_subject)

lemma send_all_Inr:
  "send_all act cfg invs calls results = (Inr rs, cs) \<Longrightarrow>
   \<forall>m\<in>set invs. \<exists>s. subject m = PStr s \<Longrightarrow>
     length rs = length results + length invs \<and> cs = calls @ map (forward_kwargs cfg) invs"
proof (induction invs arbitrary: calls results)
  case Nil
  then show ?case by simp
next
  case (Cons m invs)
  from Cons.prems(2) obtain s where s: "subject m = PStr s" by auto
  from Cons.prems(1) obtain res where
    rest: "send_all act cfg invs (calls @ [forward_kwargs cfg m]) (results @ [res]) = (Inr rs, cs)"
    unfolding send_all_Cons[OF s] by (auto split: sum.splits)
  from Cons.IH[OF rest] Cons.prems(2) show ?case by simp
qed



lemma py_lower_cases:
  "(\<exists>s. v = PStr s \<and> py_lower v = Inr (str_lower s)) \<or> (\<exists>msg. py_lower v = Inl (AttributeError msg))"
  by (cases v) (simp_all add: py_lower_def)

lemma filter_invoices_raises:
  "\<exists>m\<in>set ms. \<forall>s. subject m \<noteq> PStr s \<Longrightarrow> \<exists>msg. filter_invoices ms = Inl (AttributeError msg)"
proof (induction ms)
  case Nil
  then show ?case by simp
next
  case (Cons m ms)
  show ?case
  proof (cases "\<exists>s. subject m = PStr s")
    case True
    with Cons.prems have "\<exists>m\<in>set ms. \<forall>s. subject m \<noteq> PStr s" by auto
    from Cons.IH[OF this] True show ?thesis
      by (auto simp: subject_def py_lower_def)
  next
    case False
    with py_lower_cases[of "subject m"] show ?thesis
      by (auto simp: subject_def)
  qed
qed

lemma non_string_subject_raises:
  assumes "Registry_connector registry (dict_get cfg ''connector'' (PStr ''mock_email'')) = Inr c"
    and "fetch c = Inr messages"
    and "\<exists>m\<in>set messages. \<forall>s. subject m \<noteq> PStr s"
  shows "\<exists>msg. InvoiceEmailAgent_run registry (InvoiceEmailAgent cfg) = (Inl (AttributeError msg), [])"
  using filter_invoices_raises[OF assms(3)] assms(1,2)
  by (auto simp: InvoiceEmailAgent_run_def)


lemma has_invoice_subject_eq: "has_invoice_subject = subject_matches"
  by (rule ext) (rule has_invoice_subject_code)

lemma invoice_4_matches: "str_contains ''invoice'' (str_lower ''Invoice #4'')"
  by code_simp

lemma invoice_4_subject: "subject x = PStr ''Invoice #4'' \<Longrightarrow> has_invoice_subject x"
  unfolding has_invoice_subject_code subject_matches_def
  by (simp only: pyval.case invoice_4_matches)

lemmas registry_defs =
  Registry_connector_def Registry_action_def py_getitem_def dict_get_def
  register_plugins_def register_connector_def register_action_def Registry_init_def

subsection \<open>What a run does\<close>




text \<open>
  Claim C10. Whenever \<open>run\<close> returns normally, its result is the document of the three
  counts with \<open>sent\<close> equal to \<open>invoices\<close> and \<open>invoices\<close> at most \<open>inputs\<close>, and the action
  was called that many times.
\<close>

theorem sent_equals_invoices:
  assumes "InvoiceEmailAgent_run registry self = (Inr result, calls)"
  shows "\<exists>n k. result = counts n k k \<and> k \<le> n \<and> length calls = k"
proof -
  from assms obtain c messages invoices act results where
    f: "filter_invoices messages = Inr invoices" and
    s: "send_all act (config self) invoices [] [] = (Inr results, calls)" and
    r: "result = counts (length messages) (length invoices) (length results)"
    by (auto simp: InvoiceEmailAgent_run_def counts_def Let_def split: sum.splits prod.splits)
  from filter_invoices_Inr[OF f] have
    k: "invoices = filter has_invoice_subject messages" and
    str: "\<forall>m\<in>set invoices. \<exists>s. subject m = PStr s" by auto
  from send_all_Inr[OF s str] have "length results = length invoices" "length calls = length invoices"
    by auto
  with r k show ?thesis
    by (metis length_filter_le)
qed

theorem sent_equals_invoices_witness:
  "InvoiceEmailAgent_run demo_registry (InvoiceEmailAgent [(''action'', PStr ''log'')]) =
     (Inr (counts 3 1 1),
      [[(''to'', PNone), (''subject'', PStr ''FWD: Invoice #4''), (''body'', PStr ''Please pay'')]])
   \<and> (\<exists>n k. counts 3 1 1 = counts n k k \<and> k \<le> n \<and>
        length [[(''to'', PNone), (''subject'', PStr ''FWD: Invoice #4''),
                 (''body'', PStr ''Please pay'')]] = k)"
proof -
  have run: "InvoiceEmailAgent_run demo_registry (InvoiceEmailAgent [(''action'', PStr ''log'')]) =
     (Inr (counts 3 1 1),
      [[(''to'', PNone), (''subject'', PStr ''FWD: Invoice #4''), (''body'', PStr ''Please pay'')]])"
    by code_simp
  from sent_equals_invoices[OF run] run show ?thesis
    by (intro conjI)
qed

text \<open>
  Claim C4. Let the configured connector and action resolve. If the connector returns
  three messages, exactly one of them with the subject \<open>Invoice #4\<close> and every other one
  with a string subject that does not contain ``invoice'' in any letter case, and the
  action succeeds on its first call, the result is \<open>{inputs: 3, invoices: 1, sent: 1}\<close>
  and the action is called once, for that message. If the connector returns no message,
  the result is \<open>{inputs: 0, invoices: 0, sent: 0}\<close> and the action is not called.
\<close>

theorem invoice_agent_scenarios:
  assumes conn: "Registry_connector registry (dict_get cfg ''connector'' (PStr ''mock_email'')) = Inr c"
    and act: "Registry_action registry (dict_get cfg ''action'' (PStr ''email'')) = Inr a"
  shows "(fetch c = Inr messages \<and> length messages = 3 \<and>
          filter (\<lambda>x. subject x = PStr ''Invoice #4'') messages = [m] \<and>
          (\<forall>x\<in>set messages. subject x \<noteq> PStr ''Invoice #4'' \<longrightarrow>
              (\<exists>s. subject x = PStr s) \<and> \<not> has_invoice_subject x) \<and>
          action_run a [] (forward_kwargs cfg m) = Inr res
          \<longrightarrow> InvoiceEmailAgent_run registry (InvoiceEmailAgent cfg)
                = (Inr (counts 3 1 1), [forward_kwargs cfg m]))
       \<and> (fetch c = Inr []
          \<longrightarrow> InvoiceEmailAgent_run registry (InvoiceEmailAgent cfg) = (Inr (counts 0 0 0), []))"
proof (intro conjI impI)
  assume "fetch c = Inr []"
  then show "InvoiceEmailAgent_run registry (InvoiceEmailAgent cfg) = (Inr (counts 0 0 0), [])"
    by (simp add: InvoiceEmailAgent_run_def conn act counts_def)
next
  assume h: "fetch c = Inr messages \<and> length messages = 3 \<and>
          filter (\<lambda>x. subject x = PStr ''Invoice #4'') messages = [m] \<and>
          (\<forall>x\<in>set messages. subject x \<noteq> PStr ''Invoice #4'' \<longrightarrow>
              (\<exists>s. subject x = PStr s) \<and> \<not> has_invoice_subject x) \<and>
          action_run a [] (forward_kwargs cfg m) = Inr res"
  then have fetched: "fetch c = Inr messages" and three: "length messages = 3"
    and one: "filter (\<lambda>x. subject x = PStr ''Invoice #4'') messages = [m]"
    and others: "\<forall>x\<in>set messages. subject x \<noteq> PStr ''Invoice #4'' \<longrightarrow>
              (\<exists>s. subject x = PStr s) \<and> \<not> has_invoice_subject x"
    and sent: "action_run a [] (forward_kwargs cfg m) = Inr res"
    by simp_all
  have strs: "\<forall>x\<in>set messages. \<exists>s. subject x = PStr s"
    using others by blast
  have same: "has_invoice_subject x \<longleftrightarrow> subject x = PStr ''Invoice #4''" if "x \<in> set messages" for x
    using that others invoice_4_subject by blast
  have kept: "filter has_invoice_subject messages = [m]"
  proof -
    have "filter has_invoice_subject messages
            = filter (\<lambda>x. subject x = PStr ''Invoice #4'') messages"
      by (rule filter_cong) (simp_all add: same)
    with one show ?thesis by simp
  qed
  have f: "filter_invoices messages = Inr [m]"
    using filter_invoices_total[OF strs] kept by simp
  have "m \<in> set (filter (\<lambda>x. subject x = PStr ''Invoice #4'') messages)"
    by (simp add: one)
  then have sm: "subject m = PStr ''Invoice #4''" by simp
  have s: "send_all a cfg [m] [] [] = (Inr [res], [forward_kwargs cfg m])"
    by (simp add: send_all_Cons[OF sm] sent del: send_all.simps(2))
  show "InvoiceEmailAgent_run registry (InvoiceEmailAgent cfg)
                = (Inr (counts 3 1 1), [forward_kwargs cfg m])"
    by (simp add: InvoiceEmailAgent_run_def conn fetched f act s three counts_def
          del: send_all.simps)
qed

theorem invoice_agent_scenarios_witness:
  "InvoiceEmailAgent_run demo_registry (InvoiceEmailAgent demo_config) =
     (Inr (counts 3 1 1),
      [[(''to'', PStr ''accounting@example.com''),
        (''subject'', PStr ''FWD: Invoice #4''),
        (''body'', PStr ''Please pay'')]])
   \<and> InvoiceEmailAgent_run (register_plugins Registry_init) (InvoiceEmailAgent demo_config) =
     (Inr (counts 0 0 0), [])"
proof -
  let ?m = "[(''subject'', PStr ''Invoice #4''), (''body'', PStr ''Please pay'')]"
  let ?kw = "[(''to'', PStr ''accounting@example.com''),
        (''subject'', PStr ''FWD: Invoice #4''),
        (''body'', PStr ''Please pay'')]"
  have conn: "Registry_connector demo_registry (dict_get demo_config ''connector'' (PStr ''mock_email''))
                = Inr (MockEmailConnector (Some demo_messages))"
    by (simp add: registry_defs demo_registry_def demo_config_def)
  have act: "Registry_action demo_registry (dict_get demo_config ''action'' (PStr ''email''))
               = Inr EmailAction"
    by (simp add: registry_defs demo_registry_def demo_config_def)
  have kw: "forward_kwargs demo_config ?m = ?kw"
    by code_simp
  have no_hello: "\<not> subject_matches [(''subject'', PStr ''Hello''), (''body'', PStr ''How are you?'')]"
    by code_simp
  have no_lunch: "\<not> subject_matches [(''subject'', PStr ''Lunch on Friday'')]"
    by code_simp
  have first: "fetch (MockEmailConnector (Some demo_messages)) = Inr demo_messages \<and>
       length demo_messages = 3 \<and>
       filter (\<lambda>x. subject x = PStr ''Invoice #4'') demo_messages = [?m] \<and>
       (\<forall>x\<in>set demo_messages. subject x \<noteq> PStr ''Invoice #4'' \<longrightarrow>
           (\<exists>s. subject x = PStr s) \<and> \<not> has_invoice_subject x) \<and>
       action_run EmailAction [] (forward_kwargs demo_config ?m)
         = Inr (PDict [(''sent'', PBool True), (''to'', PStr ''accounting@example.com''),
                       (''subject'', PStr ''FWD: Invoice #4''), (''body_len'', PInt 10)])"
    using no_hello no_lunch
    by (simp add: MockEmailConnector_def demo_messages_def subject_def dict_get_def kw
          has_invoice_subject_eq EmailAction_def py_len_def)
  have conn0: "Registry_connector (register_plugins Registry_init)
                 (dict_get demo_config ''connector'' (PStr ''mock_email''))
                = Inr (MockEmailConnector None)"
    by (simp add: registry_defs demo_config_def)
  have act0: "Registry_action (register_plugins Registry_init)
                 (dict_get demo_config ''action'' (PStr ''email'')) = Inr EmailAction"
    by (simp add: registry_defs demo_config_def)
  have none: "fetch (MockEmailConnector None) = Inr []"
    by (simp add: MockEmailConnector_def)
  from invoice_agent_scenarios[OF conn act, THEN conjunct1, rule_format, OF first]
    invoice_agent_scenarios[OF conn0 act0, THEN conjunct2, rule_format, OF none]
  show ?thesis
    by (simp only: kw)
qed

section \<open>Properties of the registry and the dispatcher\<close>

text \<open>
  Claim C6. For a name with no entry, \<open>Registry.connector\<close> and \<open>Registry.action\<close> raise
  the \<open>KeyError\<close> that carries that name (the lookup error of the spec), and so return
  no component.
\<close>

theorem lookup_of_unregistered_name:
  "(connectors reg nm = None \<longrightarrow>
      Registry_connector reg (PStr nm) = Inl (KeyError (PStr nm))) \<and>
   (actions reg nm = None \<longrightarrow>
      Registry_action reg (PStr nm) = Inl (KeyError (PStr nm)))"
  by (simp add: Registry_connector_def Registry_action_def py_getitem_def)

theorem lookup_of_unregistered_name_witness:
  "connectors (register_plugins Registry_init) ''sms'' = None \<and>
   Registry_connector (register_plugins Registry_init) (PStr ''sms'') = Inl (KeyError (PStr ''sms'')) \<and>
   actions (register_plugins Registry_init) ''sms'' = None \<and>
   Registry_action (register_plugins Registry_init) (PStr ''sms'') = Inl (KeyError (PStr ''sms''))"
proof -
  have c: "connectors (register_plugins Registry_init) ''sms'' = None"
    by (simp add: registry_defs)
  have a: "actions (register_plugins Registry_init) ''sms'' = None"
    by (simp add: registry_defs)
  from lookup_of_unregistered_name[of "register_plugins Registry_init" "''sms''"] c a
  show ?thesis by simp
qed

text \<open>
  Claim C9. Registering a connector or an action under a name that already has an entry
  replaces the entry and raises nothing: the entry is the one of the later registration,
  and a lookup of the name calls the later factory.
\<close>

theorem last_registration_wins:
  "connectors (register_connector (register_connector reg nm f1) nm f2) nm
     = Some (RegisteredConnector nm f2) \<and>
   Registry_connector (register_connector (register_connector reg nm f1) nm f2) (PStr nm) = f2 () \<and>
   actions (register_action (register_action reg nm g1) nm g2) nm
     = Some (RegisteredAction nm g2) \<and>
   Registry_action (register_action (register_action reg nm g1) nm g2) (PStr nm) = g2 ()"
  by (simp add: register_connector_def register_action_def Registry_connector_def
        Registry_action_def py_getitem_def)

text \<open>
  Claim C7. For a kind that is not a key of \<open>AGENT_KIND_TO_CLASS\<close>, \<open>run_agent\<close> raises the
  \<open>KeyError\<close> that carries the kind (the unknown-kind error of the spec); for a kind that
  is, it constructs the class with the configuration, invokes \<open>run\<close> and returns what
  \<open>run\<close> produces, exception or result. The only kind of the mapping is
  \<open>invoice_email\<close>.
\<close>

theorem run_agent_dispatches:
  "(AGENT_KIND_TO_CLASS knd = None \<longrightarrow>
      run_agent registry knd cfg = (Inl (KeyError (PStr knd)), [])) \<and>
   (\<forall>agent_cls. AGENT_KIND_TO_CLASS knd = Some agent_cls \<longrightarrow>
      run_agent registry knd cfg = agent_cls cfg registry) \<and>
   (AGENT_KIND_TO_CLASS knd = None \<longleftrightarrow> knd \<noteq> InvoiceEmailAgent_kind) \<and>
   run_agent registry InvoiceEmailAgent_kind cfg
     = InvoiceEmailAgent_run registry (InvoiceEmailAgent cfg)"
  by (simp add: run_agent_def AGENT_KIND_TO_CLASS_def)

theorem run_agent_dispatches_witness:
  "run_agent demo_registry ''invoice'' demo_config = (Inl (KeyError (PStr ''invoice'')), []) \<and>
   run_agent demo_registry ''invoice_email'' demo_config
     = InvoiceEmailAgent_run demo_registry (InvoiceEmailAgent demo_config)"
proof -
  have absent: "AGENT_KIND_TO_CLASS ''invoice'' = None"
    by (simp add: AGENT_KIND_TO_CLASS_def InvoiceEmailAgent_kind_def)
  have present: "AGENT_KIND_TO_CLASS ''invoice_email''
      = Some (\<lambda>cfg registry. InvoiceEmailAgent_run registry (InvoiceEmailAgent cfg))"
    by (simp add: AGENT_KIND_TO_CLASS_def InvoiceEmailAgent_kind_def)
  from run_agent_dispatches[of "''invoice''" demo_registry demo_config] absent
  have one: "run_agent demo_registry ''invoice'' demo_config = (Inl (KeyError (PStr ''invoice'')), [])"
    by simp
  from run_agent_dispatches[of "''invoice_email''" demo_registry demo_config] present
  have two: "run_agent demo_registry ''invoice_email'' demo_config
     = InvoiceEmailAgent_run demo_registry (InvoiceEmailAgent demo_config)"
    by simp
  from one two show ?thesis by simp
qed

section \<open>Properties of the executor\<close>

subsection \<open>Keys and rows\<close>

lemma fold_max_ge: "(a::int) \<le> fold max xs a \<and> (\<forall>x\<in>set xs. x \<le> fold max xs a)"
proof (induction xs arbitrary: a)
  case Nil
  show ?case by simp
next
  case (Cons y ys)
  from Cons[of "max y a"] show ?case by auto
qed

lemma next_run_id_fresh: "next_run_id rs \<notin> Run_id ` set rs"
proof
  assume "next_run_id rs \<in> Run_id ` set rs"
  then have "next_run_id rs \<in> set (map Run_id rs)" by simp
  with fold_max_ge[of 0 "map Run_id rs"] have "next_run_id rs \<le> fold max (map Run_id rs) 0"
    by blast
  then show False by (simp add: next_run_id_def)
qed

lemma find_replaced:
  "P r \<Longrightarrow> \<exists>x\<in>set xs. P x \<Longrightarrow> find P (map (\<lambda>x. if P x then r else x) xs) = Some r"
  by (induction xs) auto

lemma find_append_None: "find P xs = None \<Longrightarrow> find P (xs @ ys) = find P ys"
  by (induction xs) (auto split: if_splits)

lemma find_write_run: "find (\<lambda>x. Run_id x = Run_id r) (write_run r rs) = Some r"
proof (cases "Run_id r \<in> Run_id ` set rs")
  case True
  then have "\<exists>x\<in>set rs. Run_id x = Run_id r" by auto
  from find_replaced[where P = "\<lambda>x. Run_id x = Run_id r", OF refl this] True
  show ?thesis by (simp add: write_run_def)
next
  case False
  then have "find (\<lambda>x. Run_id x = Run_id r) rs = None"
    by (auto simp: find_None_iff image_iff)
  with False show ?thesis by (simp add: write_run_def find_append_None)
qed

lemma set_write_run: "set (write_run r rs) \<subseteq> insert r {x \<in> set rs. Run_id x \<noteq> Run_id r}"
  by (auto simp: write_run_def image_iff)

lemma set_write_twice:
  "Run_id r0 = Run_id r \<Longrightarrow> set (write_run r (write_run r0 rs)) \<subseteq> insert r (set rs)"
  using set_write_run[of r "write_run r0 rs"] set_write_run[of r0 rs] by auto


lemma find_write_run_id: "Run_id r = k \<Longrightarrow> find (\<lambda>x. Run_id x = k) (write_run r rs) = Some r"
  using find_write_run[of r rs] by simp

lemma commits_append: "commits (es @ fs) = commits es @ commits fs"
  by (induction es rule: commits.induct) auto

lemma session_get_Run_id: "session_get_Run w rid = Some run \<Longrightarrow> Run_id run = rid"
  by (auto simp: session_get_Run_def find_Some_iff)

lemma times_ok_table:
  assumes inv: "\<forall>x\<in>set rs. terminal x \<longrightarrow> times_ok x"
    and same: "Run_id r0 = Run_id r" and ok: "times_ok r"
  shows "\<forall>x\<in>set (write_run r (write_run r0 rs)). terminal x \<longrightarrow> times_ok x"
  using set_write_twice[OF same, of rs] inv ok by auto

lemma session_get_Agent_None:
  "session_get_Agent w aid = None \<longleftrightarrow> aid \<notin> Agent_id ` set (agents_table w)"
  by (auto simp: session_get_Agent_def find_None_iff)

lemma session_get_Run_None:
  "session_get_Run w rid = None \<longleftrightarrow> rid \<notin> Run_id ` set (runs_table w)"
  by (auto simp: session_get_Run_def find_None_iff)

subsection \<open>Lookups that miss\<close>

text \<open>
  Claim C3. For an agent id with no stored agent, \<open>execute_agent_by_id\<close> returns the
  document \<open>{error: Agent <id> not found}\<close> and raises nothing; for a run id with no
  stored run, and for a stored run whose agent is not stored, \<open>execute_run\<close> returns the
  like document. In all three cases the world is unchanged: no run row is created or
  written, nothing is flushed or committed, the clock is not read and no action is called.
\<close>

theorem missing_ids_are_reported:
  "(aid \<notin> Agent_id ` set (agents_table w) \<longrightarrow>
      execute_agent_by_id registry w aid
        = (Inr (PDict [(''error'', PStr (''Agent '' @ str_int aid @ '' not found''))]), w)) \<and>
   (rid \<notin> Run_id ` set (runs_table w) \<longrightarrow>
      execute_run registry w rid
        = (Inr (PDict [(''error'', PStr (''Run '' @ str_int rid @ '' not found''))]), w)) \<and>
   (\<forall>run. session_get_Run w rid = Some run \<and> agent_id run \<notin> Agent_id ` set (agents_table w) \<longrightarrow>
      execute_run registry w rid
        = (Inr (PDict [(''error'', PStr (''Agent '' @ str_int (agent_id run) @ '' not found''))]), w))"
  by (simp add: execute_agent_by_id_def execute_run_def
        session_get_Agent_None[symmetric] session_get_Run_None[symmetric])

theorem missing_ids_are_reported_witness:
  "execute_agent_by_id demo_registry demo_world 42
     = (Inr (PDict [(''error'', PStr ''Agent 42 not found'')]), demo_world) \<and>
   execute_run demo_registry demo_world 8
     = (Inr (PDict [(''error'', PStr ''Run 8 not found'')]), demo_world) \<and>
   execute_run demo_registry demo_world 9
     = (Inr (PDict [(''error'', PStr ''Agent 99 not found'')]), demo_world)"
proof -
  have a: "42 \<notin> Agent_id ` set (agents_table demo_world)"
    by (simp add: demo_world_def demo_agent_def)
  have r: "8 \<notin> Run_id ` set (runs_table demo_world)"
    by (simp add: demo_world_def queued_run_def orphan_run_def)
  have o: "session_get_Run demo_world 9 = Some orphan_run \<and>
           agent_id orphan_run \<notin> Agent_id ` set (agents_table demo_world)"
    by (simp add: session_get_Run_def demo_world_def queued_run_def orphan_run_def demo_agent_def)
  have s: "str_int 42 = ''42''" "str_int 8 = ''8''" "str_int (agent_id orphan_run) = ''99''"
    by code_simp+
  from missing_ids_are_reported[of 42 demo_world demo_registry 8] a r
    missing_ids_are_reported[of 42 demo_world demo_registry 9] o
  show ?thesis
    by (simp add: s)
qed

subsection \<open>A behaviour that raises\<close>

lemma execute_agent_by_id_records_failure:
  assumes found: "session_get_Agent w aid = Some agent"
    and raised: "run_agent registry (Agent_kind agent) (Agent_config agent) = (Inl exc, calls)"
    and exc: "is_Exception exc"
  shows "\<exists>w' r. execute_agent_by_id registry w aid = (Inl exc, w') \<and>
           session_get_Run w' (next_run_id (runs_table w)) = Some r \<and>
           agent_id r = Agent_id agent \<and>
           status r = ''error'' \<and>
           logs r = exc_type_name exc @ '': '' @ exc_str exc \<and>
           finished_at r \<noteq> None \<and>
           commits (db_log w') = commits (db_log w) @ [r]"
  using found raised exc
  by (simp add: execute_agent_by_id_def Let_def datetime_now_def session_flush_def
        session_commit_def session_get_Run_def find_write_run_id commits_append)

lemma execute_run_records_failure:
  assumes run: "session_get_Run w rid = Some run"
    and found: "session_get_Agent w (agent_id run) = Some agent"
    and raised: "run_agent registry (Agent_kind agent) (Agent_config agent) = (Inl exc, calls)"
    and exc: "is_Exception exc"
  shows "\<exists>w' r. execute_run registry w rid = (Inl exc, w') \<and>
           session_get_Run w' rid = Some r \<and>
           agent_id r = agent_id run \<and>
           status r = ''error'' \<and>
           logs r = exc_type_name exc @ '': '' @ exc_str exc \<and>
           finished_at r \<noteq> None \<and>
           commits (db_log w') = commits (db_log w) @ [r]"
  using run found raised exc session_get_Run_id[OF run]
  by (simp add: execute_run_def Let_def datetime_now_def session_flush_def
        session_commit_def find_write_run_id commits_append)
    (simp add: session_get_Run_def find_write_run_id)

text \<open>
  Claim C1, as stated, fails: the \<^verbatim>\<open>except\<close> clause catches \<^verbatim>\<open>Exception\<close> only. When the
  connector's \<open>fetch\<close> is cancelled, the behaviour raises \<open>CancelledError\<close>, the run row
  that was created is committed with status \<open>running\<close> (and \<open>finished_at\<close> set), and the
  exception leaves the executor.
\<close>

theorem cancelled_run_stays_running:
  "run_agent cancelled_registry (Agent_kind demo_agent) (Agent_config demo_agent)
     = (Inl (Raised ''CancelledError'' [] False), []) \<and>
   session_get_Agent demo_world 1 = Some demo_agent \<and>
   fst (execute_agent_by_id cancelled_registry demo_world 1)
     = Inl (Raised ''CancelledError'' [] False) \<and>
   session_get_Run (snd (execute_agent_by_id cancelled_registry demo_world 1)) 10
     = Some \<lparr>Run_id = 10, agent_id = 1, status = ''running'', started_at = Some 1000,
             finished_at = Some 1005, logs = []\<rparr> \<and>
   commits (db_log (snd (execute_agent_by_id cancelled_registry demo_world 1)))
     = [\<lparr>Run_id = 10, agent_id = 1, status = ''running'', started_at = Some 1000,
         finished_at = Some 1005, logs = []\<rparr>]"
  by code_simp

text \<open>
  Claim C1, amended. When the agent is stored and the dispatched behaviour raises an
  exception that derives from \<^verbatim>\<open>Exception\<close>, \<open>execute_agent_by_id\<close>, and \<open>execute_run\<close> on a
  stored run of that agent, propagate that exception, and the world they leave holds the
  run row with status \<open>error\<close>, the logs \<open><type name>: <message>\<close> and \<open>finished_at\<close> set;
  that row is the one commit of the call.
\<close>

theorem failure_is_recorded:
  assumes found: "session_get_Agent w aid = Some agent"
    and raised: "run_agent registry (Agent_kind agent) (Agent_config agent) = (Inl exc, calls)"
    and exc: "is_Exception exc"
  shows "(\<exists>w' r. execute_agent_by_id registry w aid = (Inl exc, w') \<and>
            session_get_Run w' (next_run_id (runs_table w)) = Some r \<and>
            agent_id r = aid \<and>
            status r = ''error'' \<and>
            logs r = exc_type_name exc @ '': '' @ exc_str exc \<and>
            finished_at r \<noteq> None \<and>
            commits (db_log w') = commits (db_log w) @ [r]) \<and>
         (\<forall>run. session_get_Run w rid = Some run \<and> agent_id run = aid \<longrightarrow>
            (\<exists>w' r. execute_run registry w rid = (Inl exc, w') \<and>
               session_get_Run w' rid = Some r \<and>
               agent_id r = aid \<and>
               status r = ''error'' \<and>
               logs r = exc_type_name exc @ '': '' @ exc_str exc \<and>
               finished_at r \<noteq> None \<and>
               commits (db_log w') = commits (db_log w) @ [r]))"
proof (intro conjI allI impI)
  have "Agent_id agent = aid"
    using found by (auto simp: session_get_Agent_def find_Some_iff)
  with execute_agent_by_id_records_failure[OF found raised exc]
  show "\<exists>w' r. execute_agent_by_id registry w aid = (Inl exc, w') \<and>
            session_get_Run w' (next_run_id (runs_table w)) = Some r \<and>
            agent_id r = aid \<and>
            status r = ''error'' \<and>
            logs r = exc_type_name exc @ '': '' @ exc_str exc \<and>
            finished_at r \<noteq> None \<and>
            commits (db_log w') = commits (db_log w) @ [r]"
    by simp
next
  fix run
  assume "session_get_Run w rid = Some run \<and> agent_id run = aid"
  then have run: "session_get_Run w rid = Some run" and same: "agent_id run = aid"
    by simp_all
  from found same have found': "session_get_Agent w (agent_id run) = Some agent"
    by simp
  from execute_run_records_failure[OF run found' raised exc] same
  show "\<exists>w' r. execute_run registry w rid = (Inl exc, w') \<and>
               session_get_Run w' rid = Some r \<and>
               agent_id r = aid \<and>
               status r = ''error'' \<and>
               logs r = exc_type_name exc @ '': '' @ exc_str exc \<and>
               finished_at r \<noteq> None \<and>
               commits (db_log w') = commits (db_log w) @ [r]"
    by simp
qed

theorem failure_is_recorded_witness:
  "(\<exists>w' r. execute_agent_by_id flaky_registry demo_world 1
              = (Inl (Raised ''RuntimeError'' ''smtp down'' True), w') \<and>
      session_get_Run w' 10 = Some r \<and> agent_id r = 1 \<and> status r = ''error'' \<and>
      logs r = ''RuntimeError: smtp down'' \<and> finished_at r \<noteq> None \<and>
      commits (db_log w') = [r]) \<and>
   (\<exists>w' r. execute_run flaky_registry demo_world 7
              = (Inl (Raised ''RuntimeError'' ''smtp down'' True), w') \<and>
      session_get_Run w' 7 = Some r \<and> agent_id r = 1 \<and> status r = ''error'' \<and>
      logs r = ''RuntimeError: smtp down'' \<and> finished_at r \<noteq> None \<and>
      commits (db_log w') = [r])"
proof -
  let ?exc = "Raised ''RuntimeError'' ''smtp down'' True"
  have found: "session_get_Agent demo_world 1 = Some demo_agent"
    by code_simp
  have raised: "run_agent flaky_registry (Agent_kind demo_agent) (Agent_config demo_agent)
      = (Inl ?exc,
         [[(''to'', PStr ''accounting@example.com''), (''subject'', PStr ''FWD: Invoice #1''),
           (''body'', PStr [])],
          [(''to'', PStr ''accounting@example.com''), (''subject'', PStr ''FWD: Your INVOICE #2''),
           (''body'', PStr [])]])"
    by code_simp
  have exc: "is_Exception ?exc"
    by simp
  have queued: "session_get_Run demo_world 7 = Some queued_run \<and> agent_id queued_run = 1"
    by code_simp
  have n: "next_run_id (runs_table demo_world) = 10"
    by code_simp
  have l: "commits (db_log demo_world) = []"
    by (simp add: demo_world_def)
  have t: "exc_type_name ?exc @ '': '' @ exc_str ?exc = ''RuntimeError: smtp down''"
    by simp
  from failure_is_recorded[OF found raised exc, of 7] queued
  show ?thesis
    unfolding n l t by simp
qed

subsection \<open>Every run is finished\<close>

lemma execute_agent_by_id_finishes:
  assumes found: "session_get_Agent w aid = Some agent"
  shows "\<exists>w' r. execute_agent_by_id registry w aid
                  = (fst (run_agent registry (Agent_kind agent) (Agent_config agent)), w') \<and>
           session_get_Run w' (next_run_id (runs_table w)) = Some r \<and>
           finished_at r \<noteq> None \<and>
           commits (db_log w') = commits (db_log w) @ [r] \<and>
           (clock w (clock_reads w) \<le> clock w (Suc (clock_reads w)) \<longrightarrow> times_ok r \<and>
              ((\<forall>x\<in>set (runs_table w). terminal x \<longrightarrow> times_ok x) \<longrightarrow>
               (\<forall>x\<in>set (runs_table w'). terminal x \<longrightarrow> times_ok x)))"
proof -
  obtain outcome calls where
    ra: "run_agent registry (Agent_kind agent) (Agent_config agent) = (outcome, calls)"
    by (cases "run_agent registry (Agent_kind agent) (Agent_config agent)")
  define t0 where "t0 = clock w (clock_reads w)"
  define t1 where "t1 = clock w (Suc (clock_reads w))"
  define run0 where "run0 = \<lparr>Run_id = next_run_id (runs_table w), agent_id = Agent_id agent,
      status = ''running'', started_at = Some t0, finished_at = None, logs = []\<rparr>"
  define run1 where "run1 = (case outcome of
      Inr result \<Rightarrow> run0\<lparr>status := ''success'', logs := json_dumps result\<rparr>
    | Inl exc \<Rightarrow> if is_Exception exc
        then run0\<lparr>status := ''error'', logs := exc_type_name exc @ '': '' @ exc_str exc\<rparr>
        else run0)"
  define r where "r = run1\<lparr>finished_at := Some t1\<rparr>"
  define w' where "w' = w\<lparr>runs_table := write_run r (write_run run0 (runs_table w)),
      db_log := db_log w @ [Flush run0, Commit r], clock_reads := Suc (Suc (clock_reads w)),
      action_calls := action_calls w @ calls\<rparr>"
  have ex: "execute_agent_by_id registry w aid = (outcome, w')"
    using found ra
    by (cases outcome)
      (simp_all add: execute_agent_by_id_def Let_def datetime_now_def session_flush_def
        session_commit_def w'_def r_def run1_def run0_def t0_def t1_def)
  have id1: "Run_id run1 = next_run_id (runs_table w)" and st1: "started_at run1 = Some t0"
    by (auto simp: run1_def run0_def split: sum.splits)
  have idr: "Run_id r = next_run_id (runs_table w)" and id0: "Run_id run0 = Run_id r"
    using id1 by (simp_all add: r_def run0_def)
  have get: "session_get_Run w' (next_run_id (runs_table w)) = Some r"
    by (simp add: session_get_Run_def w'_def find_write_run_id[OF idr])
  have fin: "finished_at r \<noteq> None"
    by (simp add: r_def)
  have com: "commits (db_log w') = commits (db_log w) @ [r]"
    by (simp add: w'_def commits_append)
  have ok: "times_ok r" if "clock w (clock_reads w) \<le> clock w (Suc (clock_reads w))"
    using that st1 by (simp add: times_ok_def r_def t0_def t1_def)
  have tab: "\<forall>x\<in>set (runs_table w'). terminal x \<longrightarrow> times_ok x"
    if "clock w (clock_reads w) \<le> clock w (Suc (clock_reads w))" and "\<forall>x\<in>set (runs_table w). terminal x \<longrightarrow> times_ok x"
    using times_ok_table[OF that(2) id0 ok[OF that(1)]] by (simp add: w'_def)
  from ex get fin com ok tab show ?thesis
    by (simp add: ra)
qed

lemma execute_run_finishes:
  assumes run: "session_get_Run w rid = Some run"
    and found: "session_get_Agent w (agent_id run) = Some agent"
  shows "\<exists>w' r. execute_run registry w rid
                  = (fst (run_agent registry (Agent_kind agent) (Agent_config agent)), w') \<and>
           session_get_Run w' rid = Some r \<and>
           finished_at r \<noteq> None \<and>
           commits (db_log w') = commits (db_log w) @ [r] \<and>
           (clock w (clock_reads w) \<le> clock w (Suc (clock_reads w)) \<longrightarrow> times_ok r \<and>
              ((\<forall>x\<in>set (runs_table w). terminal x \<longrightarrow> times_ok x) \<longrightarrow>
               (\<forall>x\<in>set (runs_table w'). terminal x \<longrightarrow> times_ok x)))"
proof -
  obtain outcome calls where
    ra: "run_agent registry (Agent_kind agent) (Agent_config agent) = (outcome, calls)"
    by (cases "run_agent registry (Agent_kind agent) (Agent_config agent)")
  define t0 where "t0 = clock w (clock_reads w)"
  define t1 where "t1 = clock w (Suc (clock_reads w))"
  define run0 where "run0 = run\<lparr>status := ''running'', started_at := Some t0\<rparr>"
  have rid: "Run_id run = rid"
    using run by (rule session_get_Run_id)
  define run1 where "run1 = (case outcome of
      Inr result \<Rightarrow> run0\<lparr>status := ''success'', logs := json_dumps result\<rparr>
    | Inl exc \<Rightarrow> if is_Exception exc
        then run0\<lparr>status := ''error'', logs := exc_type_name exc @ '': '' @ exc_str exc\<rparr>
        else run0)"
  define r where "r = run1\<lparr>finished_at := Some t1\<rparr>"
  define w' where "w' = w\<lparr>runs_table := write_run r (write_run run0 (runs_table w)),
      db_log := db_log w @ [Flush run0, Commit r], clock_reads := Suc (Suc (clock_reads w)),
      action_calls := action_calls w @ calls\<rparr>"
  have ex: "execute_run registry w rid = (outcome, w')"
    using run found ra
    by (cases outcome)
      (simp_all add: execute_run_def Let_def datetime_now_def session_flush_def
        session_commit_def w'_def r_def run1_def run0_def t0_def t1_def)
  have id1: "Run_id run1 = rid" and st1: "started_at run1 = Some t0"
    by (auto simp: run1_def run0_def rid split: sum.splits)
  have idr: "Run_id r = rid" and id0: "Run_id run0 = Run_id r"
    using id1 by (simp_all add: r_def run0_def rid)
  have get: "session_get_Run w' rid = Some r"
    by (simp add: session_get_Run_def w'_def find_write_run_id[OF idr])
  have fin: "finished_at r \<noteq> None"
    by (simp add: r_def)
  have com: "commits (db_log w') = commits (db_log w) @ [r]"
    by (simp add: w'_def commits_append)
  have ok: "times_ok r" if "clock w (clock_reads w) \<le> clock w (Suc (clock_reads w))"
    using that st1 by (simp add: times_ok_def r_def t0_def t1_def)
  have tab: "\<forall>x\<in>set (runs_table w'). terminal x \<longrightarrow> times_ok x"
    if "clock w (clock_reads w) \<le> clock w (Suc (clock_reads w))" and "\<forall>x\<in>set (runs_table w). terminal x \<longrightarrow> times_ok x"
    using times_ok_table[OF that(2) id0 ok[OF that(1)]] by (simp add: w'_def)
  from ex get fin com ok tab show ?thesis
    by (simp add: ra)
qed

text \<open>
  Claim C2, as stated, fails: the two times are readings of the wall clock, and nothing
  in the executor orders them. With a clock that goes back between the two readings the
  run ends in status \<open>success\<close> with \<open>finished_at\<close> before \<open>started_at\<close>.
\<close>

theorem finished_before_started:
  "map_option status
     (session_get_Run (snd (execute_agent_by_id demo_registry backward_world 1)) 10)
     = Some ''success'' \<and>
   map_option started_at
     (session_get_Run (snd (execute_agent_by_id demo_registry backward_world 1)) 10)
     = Some (Some 1000) \<and>
   map_option finished_at
     (session_get_Run (snd (execute_agent_by_id demo_registry backward_world 1)) 10)
     = Some (Some 995) \<and>
   map_option status (session_get_Run (snd (execute_run demo_registry backward_world 7)) 7)
     = Some ''success'' \<and>
   map_option started_at (session_get_Run (snd (execute_run demo_registry backward_world 7)) 7)
     = Some (Some 1000) \<and>
   map_option finished_at (session_get_Run (snd (execute_run demo_registry backward_world 7)) 7)
     = Some (Some 995)"
  by code_simp

text \<open>
  Claim C2, amended. Whenever \<open>execute_agent_by_id\<close> finds the agent, or \<open>execute_run\<close>
  finds the run and its agent, the call ends with the outcome of the behaviour, result or
  exception alike; the run row it leaves has \<open>finished_at\<close> set, and the call commits
  exactly once, with that row. If the second reading of the clock is not before the
  first, the row's \<open>finished_at\<close> is not before its \<open>started_at\<close>, and if every row in a
  terminal status had both times in that order before the call, every row has after it.
\<close>

theorem run_always_finishes:
  "(\<forall>agent. session_get_Agent w aid = Some agent \<longrightarrow>
      (\<exists>w' r. execute_agent_by_id registry w aid
                 = (fst (run_agent registry (Agent_kind agent) (Agent_config agent)), w') \<and>
         session_get_Run w' (next_run_id (runs_table w)) = Some r \<and>
         finished_at r \<noteq> None \<and>
         commits (db_log w') = commits (db_log w) @ [r] \<and>
         (clock w (clock_reads w) \<le> clock w (Suc (clock_reads w)) \<longrightarrow> times_ok r \<and>
            ((\<forall>x\<in>set (runs_table w). terminal x \<longrightarrow> times_ok x) \<longrightarrow>
             (\<forall>x\<in>set (runs_table w'). terminal x \<longrightarrow> times_ok x))))) \<and>
   (\<forall>run agent. session_get_Run w rid = Some run \<and>
        session_get_Agent w (agent_id run) = Some agent \<longrightarrow>
      (\<exists>w' r. execute_run registry w rid
                 = (fst (run_agent registry (Agent_kind agent) (Agent_config agent)), w') \<and>
         session_get_Run w' rid = Some r \<and>
         finished_at r \<noteq> None \<and>
         commits (db_log w') = commits (db_log w) @ [r] \<and>
         (clock w (clock_reads w) \<le> clock w (Suc (clock_reads w)) \<longrightarrow> times_ok r \<and>
            ((\<forall>x\<in>set (runs_table w). terminal x \<longrightarrow> times_ok x) \<longrightarrow>
             (\<forall>x\<in>set (runs_table w'). terminal x \<longrightarrow> times_ok x)))))"
  using execute_agent_by_id_finishes execute_run_finishes by blast

theorem run_always_finishes_witness:
  "(\<exists>w' r. execute_agent_by_id demo_registry demo_world 1 = (Inr (counts 3 1 1), w') \<and>
      session_get_Run w' 10 = Some r \<and> finished_at r \<noteq> None \<and> times_ok r \<and>
      commits (db_log w') = [r] \<and>
      list_all (\<lambda>x. terminal x \<longrightarrow> times_ok x) (runs_table w')) \<and>
   (\<exists>w' r. execute_run demo_registry demo_world 7 = (Inr (counts 3 1 1), w') \<and>
      session_get_Run w' 7 = Some r \<and> finished_at r \<noteq> None \<and> times_ok r \<and>
      commits (db_log w') = [r] \<and>
      list_all (\<lambda>x. terminal x \<longrightarrow> times_ok x) (runs_table w'))"
proof -
  have found: "session_get_Agent demo_world 1 = Some demo_agent"
    by code_simp
  have queued: "session_get_Run demo_world 7 = Some queued_run \<and>
      session_get_Agent demo_world (agent_id queued_run) = Some demo_agent"
    by code_simp
  have out: "fst (run_agent demo_registry (Agent_kind demo_agent) (Agent_config demo_agent))
      = Inr (counts 3 1 1)"
    by code_simp
  have n: "next_run_id (runs_table demo_world) = 10"
    by code_simp
  have l: "commits (db_log demo_world) = []"
    by (simp add: demo_world_def)
  have m: "clock demo_world (clock_reads demo_world)
             \<le> clock demo_world (Suc (clock_reads demo_world))"
    by (simp add: demo_world_def)
  have t: "\<forall>x\<in>set (runs_table demo_world). terminal x \<longrightarrow> times_ok x"
    by (simp add: demo_world_def queued_run_def orphan_run_def terminal_def)
  from run_always_finishes[of demo_world 1 demo_registry 7] found queued m t
  show ?thesis
    by (simp add: out n l list_all_iff) blast
qed

section \<open>Properties of the scheduler\<close>

lemma get_job_None: "get_job jobs jid = None \<longleftrightarrow> jid \<notin> job_id ` set jobs"
  by (auto simp: get_job_def find_None_iff)

lemma remove_first_distinct:
  "distinct (map job_id jobs) \<Longrightarrow> remove_first jid jobs = filter (\<lambda>j. job_id j \<noteq> jid) jobs"
proof (induction jobs)
  case Nil
  show ?case by simp
next
  case (Cons j js)
  show ?case
  proof (cases "job_id j = jid")
    case True
    with Cons.prems have "\<forall>x\<in>set js. job_id x \<noteq> jid" by (auto simp: image_iff)
    then have "filter (\<lambda>j. job_id j \<noteq> jid) js = js" by (simp add: filter_id_conv)
    with True show ?thesis by simp
  next
    case False
    with Cons show ?thesis by simp
  qed
qed

lemma remove_first_absent:
  "jid \<notin> job_id ` set jobs \<Longrightarrow> filter (\<lambda>j. job_id j \<noteq> jid) jobs = jobs"
  by (auto simp: filter_id_conv)

lemma removal_before_trigger:
  assumes "distinct (map job_id jobs)"
  shows "(case get_job jobs jid of Some _ \<Rightarrow> remove_job jobs jid | None \<Rightarrow> (None, jobs))
           = (None, filter (\<lambda>j. job_id j \<noteq> jid) jobs)"
proof (cases "get_job jobs jid")
  case None
  then have "jid \<notin> job_id ` set jobs" by (simp add: get_job_None)
  with None show ?thesis by (simp add: remove_first_absent)
next
  case (Some j)
  then show ?thesis
    by (simp add: remove_job_def remove_first_distinct[OF assms])
qed

lemma get_job_filtered: "get_job (filter (\<lambda>j. job_id j \<noteq> jid) jobs) jid = None"
  by (auto simp: get_job_None)

lemma add_job_fresh: "get_job jobs (job_id j) = None \<Longrightarrow> add_job jobs j b = (None, jobs @ [j])"
  by (simp add: add_job_def)

lemma add_or_update_job_installs:
  assumes "distinct (map job_id jobs)" and "IntervalTrigger now seconds = Inr t"
  shows "add_or_update_job jobs now aid seconds =
           (None, filter (\<lambda>j. job_id j \<noteq> ''agent-'' @ str_int aid) jobs
                @ [\<lparr>job_id = ''agent-'' @ str_int aid, job_agent_id = aid, trigger_seconds = t\<rparr>])"
proof -
  let ?jid = "''agent-'' @ str_int aid"
  let ?new = "\<lparr>job_id = ?jid, job_agent_id = aid, trigger_seconds = t\<rparr>"
  have "add_or_update_job jobs now aid seconds
          = add_job (filter (\<lambda>j. job_id j \<noteq> ?jid) jobs) ?new True"
    by (simp only: add_or_update_job_def Let_def removal_before_trigger[OF assms(1)] assms(2)
          prod.case option.case sum.case)
  also have "\<dots> = (None, filter (\<lambda>j. job_id j \<noteq> ?jid) jobs @ [?new])"
    by (rule add_job_fresh) (simp only: job.simps get_job_filtered)
  finally show ?thesis .
qed

lemma add_or_update_job_raises:
  assumes "distinct (map job_id jobs)" and "IntervalTrigger now seconds = Inl e"
  shows "add_or_update_job jobs now aid seconds =
           (Some e, filter (\<lambda>j. job_id j \<noteq> ''agent-'' @ str_int aid) jobs)"
  by (simp only: add_or_update_job_def Let_def removal_before_trigger[OF assms(1)] assms(2)
        prod.case option.case sum.case)

lemma IntervalTrigger_Inr:
  "IntervalTrigger now seconds = Inr t \<Longrightarrow> t = (if seconds = 0 then 1 else seconds)"
  by (auto simp: IntervalTrigger_def Let_def split: if_splits)

lemma IntervalTrigger_positive:
  assumes "0 < seconds" "0 \<le> now" "now + seconds \<le> 315537897599"
  shows "IntervalTrigger now seconds = Inr seconds"
proof -
  have "seconds \<le> 315537897599" using assms by simp
  then have "seconds div 86400 \<le> 315537897599 div 86400"
    by (rule zdiv_mono1) simp
  moreover have "0 \<le> seconds div 86400"
    using assms(1) by (simp add: pos_imp_zdiv_nonneg_iff)
  ultimately show ?thesis
    using assms by (simp add: IntervalTrigger_def Let_def)
qed

lemma distinct_after_add:
  assumes "distinct (map job_id jobs)"
  shows "distinct (map job_id (filter (\<lambda>j. job_id j \<noteq> jid) jobs @ [j\<lparr>job_id := jid\<rparr>]))"
  using assms by (auto simp: distinct_map_filter)

text \<open>
  Claim C8, as stated, fails for two kinds of interval: the source hands the seconds to
  the trigger unchecked, after it removed the timer that existed. A later call with 0
  seconds leaves a timer of one second; a later call with seconds beyond what the trigger
  can hold raises \<open>OverflowError\<close> and leaves no timer for the id.
\<close>

theorem later_interval_not_installed:
  "add_or_update_job [] demo_now 5 60
     = (None, [\<lparr>job_id = ''agent-5'', job_agent_id = 5, trigger_seconds = 60\<rparr>]) \<and>
   add_or_update_job [\<lparr>job_id = ''agent-5'', job_agent_id = 5, trigger_seconds = 60\<rparr>]
       demo_now 5 0
     = (None, [\<lparr>job_id = ''agent-5'', job_agent_id = 5, trigger_seconds = 1\<rparr>]) \<and>
   map_option exc_type_name
     (fst (add_or_update_job [\<lparr>job_id = ''agent-5'', job_agent_id = 5, trigger_seconds = 60\<rparr>]
             demo_now 5 1000000000000000000))
     = Some ''OverflowError'' \<and>
   snd (add_or_update_job [\<lparr>job_id = ''agent-5'', job_agent_id = 5, trigger_seconds = 60\<rparr>]
          demo_now 5 1000000000000000000)
     = []"
  by code_simp

text \<open>
  Claim C8, amended. On a store in which no two jobs share an id, two calls of
  \<open>add_or_update_job\<close> for the same agent id, each with seconds from which the trigger
  can be built, both succeed and leave exactly one job with that agent's job id; its
  interval is the one of the later call (one second when that call gives 0), so the job
  of the earlier call is gone. The jobs of other ids are as before. By
  \<open>IntervalTrigger_positive\<close> the trigger can be built from every positive number of
  seconds that keeps its start date within the year 9999.
\<close>

theorem add_or_update_job_twice:
  assumes "distinct (map job_id jobs)"
    and "IntervalTrigger now n = Inr t"
    and "IntervalTrigger now' n' = Inr t'"
  shows "\<exists>jobs1 jobs2.
           add_or_update_job jobs now aid n = (None, jobs1) \<and>
           add_or_update_job jobs1 now' aid n' = (None, jobs2) \<and>
           filter (\<lambda>j. job_id j = ''agent-'' @ str_int aid) jobs2
             = [\<lparr>job_id = ''agent-'' @ str_int aid, job_agent_id = aid, trigger_seconds = t'\<rparr>] \<and>
           t' = (if n' = 0 then 1 else n') \<and>
           filter (\<lambda>j. job_id j \<noteq> ''agent-'' @ str_int aid) jobs2
             = filter (\<lambda>j. job_id j \<noteq> ''agent-'' @ str_int aid) jobs \<and>
           distinct (map job_id jobs2)"
proof -
  let ?jid = "''agent-'' @ str_int aid"
  let ?new = "\<lambda>s. \<lparr>job_id = ?jid, job_agent_id = aid, trigger_seconds = s\<rparr>"
  let ?jobs1 = "filter (\<lambda>j. job_id j \<noteq> ?jid) jobs @ [?new t]"
  let ?jobs2 = "filter (\<lambda>j. job_id j \<noteq> ?jid) ?jobs1 @ [?new t']"
  have d1: "distinct (map job_id ?jobs1)"
    using distinct_after_add[OF assms(1), of ?jid "?new t"] by simp
  have d2: "distinct (map job_id ?jobs2)"
    using distinct_after_add[OF d1, of ?jid "?new t'"] by simp
  have s1: "add_or_update_job jobs now aid n = (None, ?jobs1)"
    by (rule add_or_update_job_installs[OF assms(1,2)])
  have s2: "add_or_update_job ?jobs1 now' aid n' = (None, ?jobs2)"
    by (rule add_or_update_job_installs[OF d1 assms(3)])
  have one: "filter (\<lambda>j. job_id j = ?jid) ?jobs2 = [?new t']"
    by simp
  have others: "filter (\<lambda>j. job_id j \<noteq> ?jid) ?jobs2 = filter (\<lambda>j. job_id j \<noteq> ?jid) jobs"
    by simp
  note len = IntervalTrigger_Inr[OF assms(3)]
  from s1 s2 one others d2 len show ?thesis by blast
qed

theorem add_or_update_job_twice_witness:
  "add_or_update_job [] demo_now 5 60
     = (None, [\<lparr>job_id = ''agent-5'', job_agent_id = 5, trigger_seconds = 60\<rparr>]) \<and>
   add_or_update_job [\<lparr>job_id = ''agent-5'', job_agent_id = 5, trigger_seconds = 60\<rparr>]
       demo_now 5 30
     = (None, [\<lparr>job_id = ''agent-5'', job_agent_id = 5, trigger_seconds = 30\<rparr>])"
proof -
  have d: "distinct (map job_id [])" by simp
  have t1: "IntervalTrigger demo_now 60 = Inr 60" by code_simp
  have t2: "IntervalTrigger demo_now 30 = Inr 30" by code_simp
  have n: "''agent-'' @ str_int 5 = ''agent-5''" by code_simp
  from add_or_update_job_twice[OF d t1 t2, of 5] obtain jobs1 jobs2 where
    a: "add_or_update_job [] demo_now 5 60 = (None, jobs1)" and
    b: "add_or_update_job jobs1 demo_now 5 30 = (None, jobs2)" and
    one: "filter (\<lambda>j. job_id j = ''agent-5'') jobs2
             = [\<lparr>job_id = ''agent-5'', job_agent_id = 5, trigger_seconds = 30\<rparr>]" and
    rest: "filter (\<lambda>j. job_id j \<noteq> ''agent-5'') jobs2 = filter (\<lambda>j. job_id j \<noteq> ''agent-5'') []"
    unfolding n by blast
  have "add_or_update_job [] demo_now 5 60
     = (None, [\<lparr>job_id = ''agent-5'', job_agent_id = 5, trigger_seconds = 60\<rparr>])"
    by code_simp
  with a have j1: "jobs1 = [\<lparr>job_id = ''agent-5'', job_agent_id = 5, trigger_seconds = 60\<rparr>]"
    by simp
  from rest have "\<forall>j\<in>set jobs2. job_id j = ''agent-5''"
    by (simp add: filter_empty_conv)
  then have "filter (\<lambda>j. job_id j = ''agent-5'') jobs2 = jobs2"
    by (simp add: filter_id_conv)
  with one have j2: "jobs2 = [\<lparr>job_id = ''agent-5'', job_agent_id = 5, trigger_seconds = 30\<rparr>]"
    by simp
  from a b j1 j2 show ?thesis by simp
qed

end
